theory Spec2Isabelle
  imports Main "HOL-Library.Sublist" "HOL-Library.AList"
begin

section \<open>Tag classification (src/index.js, lines 31--42)\<close>

text \<open>
  A tag name is a JavaScript string; it is modelled as a \<open>string\<close>. The two regular
  expressions of the source are anchored at the start of the name only, and
  \<open>RegExp.prototype.test\<close> asks whether some prefix of the name matches.
  \<open>\d\<close> is one of the ten ASCII digits; \<open>\d+\<close> is greedy, and what it takes is
  \<open>takeWhile isDigit\<close>: in \<open>^v\d+\.\d+\<close> no shorter run can be followed by a dot,
  because the character after a shorter run is a digit.
\<close>

definition isDigit :: "char \<Rightarrow> bool" where
  "isDigit c = (c \<in> set ''0123456789'')"

text \<open>\<^verbatim>\<open>/^v\d+/.test(tag)\<close>\<close>

definition testRootPattern :: "string \<Rightarrow> bool" where
  "testRootPattern tag =
     (case tag of
        [] \<Rightarrow> False
      | c # rest \<Rightarrow> c = CHR ''v'' \<and> takeWhile isDigit rest \<noteq> [])"

text \<open>\<^verbatim>\<open>/^v\d+\.\d+/.test(tag)\<close>\<close>

definition testVersionPattern :: "string \<Rightarrow> bool" where
  "testVersionPattern tag =
     (case tag of
        [] \<Rightarrow> False
      | c # rest \<Rightarrow>
          c = CHR ''v'' \<and> takeWhile isDigit rest \<noteq> [] \<and>
          (case dropWhile isDigit rest of
             [] \<Rightarrow> False
           | d # rest' \<Rightarrow> d = CHR ''.'' \<and> takeWhile isDigit rest' \<noteq> []))"

text \<open>\<^verbatim>\<open>tags.filter(tag => /^v\d+\.\d+/.test(tag))\<close>\<close>

definition filterVersionTags :: "string list \<Rightarrow> string list" where
  "filterVersionTags tags = filter testVersionPattern tags"

text \<open>
  \<^verbatim>\<open>tags.find(tag => /^v\d+/.test(tag))\<close>: the first element that passes the test,
  \<open>undefined\<close> (here \<open>None\<close>) when there is none.
\<close>

definition getRootTag :: "string list \<Rightarrow> string option" where
  "getRootTag tags = find testRootPattern tags"

text \<open>
  The truth value JavaScript gives to the result of \<open>getRootTag\<close> in a condition:
  \<open>undefined\<close> and the empty string are falsy, every other string is truthy.
\<close>

definition truthy :: "string option \<Rightarrow> bool" where
  "truthy v = (case v of None \<Rightarrow> False | Some s \<Rightarrow> s \<noteq> [])"

text \<open>\<^verbatim>\<open>rootTag ? tags.filter(tag => tag !== rootTag) : tags\<close>\<close>

definition filterNonRootTags :: "string list \<Rightarrow> string list" where
  "filterNonRootTags tags =
     (let rootTag = getRootTag tags
      in if truthy rootTag then filter (\<lambda>tag. Some tag \<noteq> rootTag) tags else tags)"

text \<open>
  The reading of "bare major version" that the specification gives: the name matches
  \<open>^v\d+\<close> and no \<open>.minor\<close> component follows the digits (\<open>v2\<close>, not \<open>v2.3\<close>).
\<close>

definition bareMajor :: "string \<Rightarrow> bool" where
  "bareMajor tag = (testRootPattern tag \<and> \<not> testVersionPattern tag)"

section \<open>The process: results, state, sequencing\<close>

text \<open>
  An \<open>async\<close> function of the source either returns a value, ends the process with
  \<open>process.exit(code)\<close>, or throws. \<open>process.exit\<close> does not return and is not caught by
  any \<open>catch\<close>.
\<close>

type_synonym commit = string

datatype gitcmd =
    Status
  | FetchTags
  | ListTags
  | RevParse string
  | TagDelete string
  | TagCreate string commit
  | PushForce string

datatype error = ExitPromptError | GitError gitcmd | OtherError string

datatype 'a result = Value 'a | Exit nat | Throw error

text \<open>What the console receives: \<open>console.log(text)\<close>, \<open>console.error(text)\<close> and
  \<open>console.error(err)\<close>. The colours of \<open>chalk\<close> are left out.\<close>

datatype printed = Log string | Error string | ErrorObject error

text \<open>A prompt that was shown: \<open>select({message, choices})\<close> with the choices as
  (name, value) pairs, and \<open>confirm({message, default})\<close>.\<close>

datatype prompt = Select string "(string \<times> string) list" | Confirm string bool

text \<open>The promise of a prompt resolves to an answer or rejects with an error
  (\<open>ExitPromptError\<close> when the user abandons the prompt).\<close>

datatype 'a answer = Answer 'a | Rejects error

record user =
  selects :: "string \<Rightarrow> (string \<times> string) list \<Rightarrow> string answer"
  confirms :: "string \<Rightarrow> bool \<Rightarrow> bool answer"

text \<open>The Change Record \<^verbatim>\<open>{ tag, oldCommitHash, newCommitHash }\<close>.\<close>

record change =
  tag :: string
  oldCommitHash :: commit
  newCommitHash :: commit

text \<open>
  The state of a run. \<open>repoPresent\<close>, \<open>localTags\<close>, \<open>remoteTags\<close>, \<open>headCommit\<close> and
  \<open>faults\<close> are the repository and its remote as the \<open>simple-git\<close> calls see them:
  the tag refs are association lists from tag name to commit, in listing order, and
  \<open>faults\<close> says which commands fail for a reason outside the program (network,
  permissions, an unknown commit). \<open>changes\<close> is the array \<open>changes\<close> of \<open>main\<close>.
  \<open>trace\<close>, \<open>asked\<close> and \<open>console\<close> record what the run did: every git command with
  its success, every prompt shown, every line printed.
\<close>

record state =
  repoPresent :: bool
  localTags :: "(string \<times> commit) list"
  remoteTags :: "(string \<times> commit) list"
  headCommit :: "commit option"
  faults :: "gitcmd \<Rightarrow> bool"
  changes :: "change list"
  trace :: "(gitcmd \<times> bool) list"
  asked :: "prompt list"
  console :: "printed list"

type_synonym 'a prog = "state \<Rightarrow> 'a result \<times> state"

definition ret :: "'a \<Rightarrow> 'a prog" where
  "ret x s = (Value x, s)"

definition exitProcess :: "nat \<Rightarrow> 'a prog" where
  "exitProcess n s = (Exit n, s)"

definition throwError :: "error \<Rightarrow> 'a prog" where
  "throwError e s = (Throw e, s)"

text \<open>\<open>await m; f\<close>: the rest runs only when \<open>m\<close> returned.\<close>

definition andThen :: "'a prog \<Rightarrow> ('a \<Rightarrow> 'b prog) \<Rightarrow> 'b prog" where
  "andThen m f s =
     (case m s of
        (Value x, s') \<Rightarrow> f x s'
      | (Exit n, s') \<Rightarrow> (Exit n, s')
      | (Throw e, s') \<Rightarrow> (Throw e, s'))"

text \<open>\<open>try { m } catch (err) { h err }\<close>\<close>

definition tryCatch :: "'a prog \<Rightarrow> (error \<Rightarrow> 'a prog) \<Rightarrow> 'a prog" where
  "tryCatch m h s =
     (case m s of
        (Throw e, s') \<Rightarrow> h e s'
      | (Value x, s') \<Rightarrow> (Value x, s')
      | (Exit n, s') \<Rightarrow> (Exit n, s'))"

definition consoleLog :: "string \<Rightarrow> unit prog" where
  "consoleLog msg s = (Value (), s\<lparr>console := console s @ [Log msg]\<rparr>)"

definition consoleError :: "string \<Rightarrow> unit prog" where
  "consoleError msg s = (Value (), s\<lparr>console := console s @ [Error msg]\<rparr>)"

definition consoleErrorObject :: "error \<Rightarrow> unit prog" where
  "consoleErrorObject e s = (Value (), s\<lparr>console := console s @ [ErrorObject e]\<rparr>)"

text \<open>The exit status of the process for the result of \<open>main\<close>: a run that falls off
  the end exits with status 0; an unhandled rejection would exit with status 1.\<close>

definition exitStatus :: "'a result \<Rightarrow> nat" where
  "exitStatus r = (case r of Value _ \<Rightarrow> 0 | Exit n \<Rightarrow> n | Throw _ \<Rightarrow> 1)"

section \<open>The prompts (@inquirer/prompts)\<close>

definition select :: "user \<Rightarrow> string \<Rightarrow> (string \<times> string) list \<Rightarrow> string prog" where
  "select u message choices s =
     (let s' = s\<lparr>asked := asked s @ [Select message choices]\<rparr>
      in case selects u message choices of
           Answer v \<Rightarrow> (Value v, s')
         | Rejects e \<Rightarrow> (Throw e, s'))"

definition confirm :: "user \<Rightarrow> string \<Rightarrow> bool \<Rightarrow> bool prog" where
  "confirm u message dflt s =
     (let s' = s\<lparr>asked := asked s @ [Confirm message dflt]\<rparr>
      in case confirms u message dflt of
           Answer v \<Rightarrow> (Value v, s')
         | Rejects e \<Rightarrow> (Throw e, s'))"

section \<open>The git commands (simple-git)\<close>

text \<open>
  Each command is recorded in \<open>trace\<close> with its success, and rejects with \<open>GitError\<close>
  when it fails. A command fails outside a repository, when \<open>faults\<close> says so, and
  when git itself refuses it: \<open>rev-parse\<close> of a ref that does not exist, \<open>tag -d\<close> of a
  tag that does not exist, \<open>tag\<close> of a name that exists, \<open>push\<close> of a tag that does not
  exist locally.
\<close>

definition fails :: "state \<Rightarrow> gitcmd \<Rightarrow> bool" where
  "fails s c = (\<not> repoPresent s \<or> faults s c)"

definition logged :: "gitcmd \<Rightarrow> bool \<Rightarrow> state \<Rightarrow> state" where
  "logged c ok s = s\<lparr>trace := trace s @ [(c, ok)]\<rparr>"

definition rejected :: "gitcmd \<Rightarrow> 'a prog" where
  "rejected c s = (Throw (GitError c), logged c False s)"

definition resolveRef :: "state \<Rightarrow> string \<Rightarrow> commit option" where
  "resolveRef s ref = (if ref = ''HEAD'' then headCommit s else map_of (localTags s) ref)"

text \<open>\<^verbatim>\<open>git.status()\<close>\<close>

definition gitStatus :: "unit prog" where
  "gitStatus s = (if fails s Status then rejected Status s else (Value (), logged Status True s))"

text \<open>\<^verbatim>\<open>git.fetch(['--tags'])\<close>: the tags of the remote that are not present locally are
  added; a tag present on both sides keeps its local commit.\<close>

definition fetchedTags :: "state \<Rightarrow> (string \<times> commit) list" where
  "fetchedTags s =
     localTags s @ filter (\<lambda>(name, c). map_of (localTags s) name = None) (remoteTags s)"

definition gitFetchTags :: "unit prog" where
  "gitFetchTags s =
     (if fails s FetchTags then rejected FetchTags s
      else (Value (), logged FetchTags True (s\<lparr>localTags := fetchedTags s\<rparr>)))"

text \<open>\<^verbatim>\<open>(await git.tags()).all\<close>\<close>

definition gitTags :: "string list prog" where
  "gitTags s =
     (if fails s ListTags then rejected ListTags s
      else (Value (map fst (localTags s)), logged ListTags True s))"

text \<open>\<^verbatim>\<open>(await git.raw(['rev-parse', ref])).trim()\<close>: the commit identifier, without the
  newline that git prints after it.\<close>

definition gitRevParse :: "string \<Rightarrow> commit prog" where
  "gitRevParse ref s =
     (if fails s (RevParse ref) then rejected (RevParse ref) s
      else case resolveRef s ref of
             None \<Rightarrow> rejected (RevParse ref) s
           | Some c \<Rightarrow> (Value c, logged (RevParse ref) True s))"

text \<open>\<^verbatim>\<open>git.tag(['-d', name])\<close>\<close>

definition gitTagDelete :: "string \<Rightarrow> unit prog" where
  "gitTagDelete name s =
     (if fails s (TagDelete name) \<or> map_of (localTags s) name = None
      then rejected (TagDelete name) s
      else (Value (),
            logged (TagDelete name) True (s\<lparr>localTags := AList.delete name (localTags s)\<rparr>)))"

text \<open>\<^verbatim>\<open>git.tag([name, commitHash])\<close>\<close>

definition gitTagCreate :: "string \<Rightarrow> commit \<Rightarrow> unit prog" where
  "gitTagCreate name c s =
     (if fails s (TagCreate name c) \<or> map_of (localTags s) name \<noteq> None
      then rejected (TagCreate name c) s
      else (Value (),
            logged (TagCreate name c) True (s\<lparr>localTags := localTags s @ [(name, c)]\<rparr>)))"

text \<open>\<^verbatim>\<open>git.raw(['push', 'origin', `refs/tags/${name}:refs/tags/${name}`, '--force'])\<close>:
  the remote ref is overwritten with the local one.\<close>

definition gitPushForce :: "string \<Rightarrow> unit prog" where
  "gitPushForce name s =
     (if fails s (PushForce name) then rejected (PushForce name) s
      else case map_of (localTags s) name of
             None \<Rightarrow> rejected (PushForce name) s
           | Some c \<Rightarrow>
               (Value (),
                logged (PushForce name) True
                  (s\<lparr>remoteTags := AList.update name c (remoteTags s)\<rparr>)))"

section \<open>The functions of src/index.js\<close>

definition isGitRepo :: "bool prog" where
  "isGitRepo =
     tryCatch (andThen gitStatus (\<lambda>_. ret True))
       (\<lambda>err. andThen (consoleLog ''Not a Git repository.'') (\<lambda>_. ret False))"

definition getTags :: "string list prog" where
  "getTags =
     tryCatch
       (andThen gitFetchTags (\<lambda>_.
        andThen gitTags (\<lambda>tags.
        ret tags)))
       (\<lambda>err. andThen (consoleError ''Error fetching tags.'') (\<lambda>_. exitProcess 1))"

definition getLatestCommitHash :: "commit prog" where
  "getLatestCommitHash =
     tryCatch
       (andThen (gitRevParse ''HEAD'') (\<lambda>commitHash. ret commitHash))
       (\<lambda>err. andThen (consoleError ''Error retrieving latest commit hash.'') (\<lambda>_.
               exitProcess 1))"

definition getCommitOfTag :: "string \<Rightarrow> commit prog" where
  "getCommitOfTag name =
     tryCatch
       (andThen (gitRevParse name) (\<lambda>commitHash. ret commitHash))
       (\<lambda>err. andThen (consoleError ''Error retrieving commit hash for tag.'') (\<lambda>_.
               exitProcess 1))"

definition shortenCommitHash :: "commit \<Rightarrow> string" where
  "shortenCommitHash commitHash = take 7 commitHash"

definition deleteLocalTag :: "string \<Rightarrow> unit prog" where
  "deleteLocalTag name =
     tryCatch
       (andThen (gitTagDelete name) (\<lambda>_.
        consoleLog (''Local tag '' @ name @ '' deleted.'')))
       (\<lambda>err. andThen (consoleError ''Error deleting local tag.'') (\<lambda>_. exitProcess 1))"

definition forcePushTag :: "string \<Rightarrow> unit prog" where
  "forcePushTag name =
     tryCatch
       (andThen (gitPushForce name) (\<lambda>_.
        consoleLog (''Tag '' @ name @ '' force-pushed to GitHub.'')))
       (\<lambda>err. andThen (consoleError ''Error force-pushing tag.'') (\<lambda>_. exitProcess 1))"

definition updateTag :: "string \<Rightarrow> commit \<Rightarrow> change prog" where
  "updateTag name commitHash =
     andThen (getCommitOfTag name) (\<lambda>oldCommit.
     let shortOldCommitHash = shortenCommitHash oldCommit;
         shortNewCommitHash = shortenCommitHash commitHash
     in
     andThen (consoleLog (''Updating tag '' @ name @ '' to point to commit '' @ shortNewCommitHash)) (\<lambda>_.
     tryCatch
       (andThen (deleteLocalTag name) (\<lambda>_.
        andThen (gitTagCreate name commitHash) (\<lambda>_.
        andThen (forcePushTag name) (\<lambda>_.
        andThen (consoleLog (''Tag '' @ name @ '' updated from '' @ shortOldCommitHash @ '' to '' @ shortNewCommitHash)) (\<lambda>_.
        ret \<lparr>tag = name, oldCommitHash = oldCommit, newCommitHash = commitHash\<rparr>)))))
       (\<lambda>err. andThen (consoleError ''Error updating tag.'') (\<lambda>_.
               andThen (consoleErrorObject err) (\<lambda>_.
               exitProcess 1)))))"

definition updateRootTag :: "string \<Rightarrow> commit \<Rightarrow> change prog" where
  "updateRootTag rootTag commitHash =
     andThen (getCommitOfTag rootTag) (\<lambda>oldCommit.
     let shortOldCommitHash = shortenCommitHash oldCommit;
         shortNewCommitHash = shortenCommitHash commitHash
     in
     andThen (consoleLog (''Updating root tag '' @ rootTag @ '' to point to commit '' @ shortNewCommitHash)) (\<lambda>_.
     tryCatch
       (andThen (deleteLocalTag rootTag) (\<lambda>_.
        andThen (gitTagCreate rootTag commitHash) (\<lambda>_.
        andThen (forcePushTag rootTag) (\<lambda>_.
        andThen (consoleLog (''Root tag '' @ rootTag @ '' updated from '' @ shortOldCommitHash @ '' to '' @ shortNewCommitHash)) (\<lambda>_.
        ret \<lparr>tag = rootTag, oldCommitHash = oldCommit, newCommitHash = commitHash\<rparr>)))))
       (\<lambda>err. andThen (consoleError ''Error updating root tag.'') (\<lambda>_.
               andThen (consoleErrorObject err) (\<lambda>_.
               exitProcess 1)))))"

text \<open>\<^verbatim>\<open>changes.push(record)\<close>\<close>

definition changesPush :: "change \<Rightarrow> unit prog" where
  "changesPush c s = (Value (), s\<lparr>changes := changes s @ [c]\<rparr>)"

text \<open>\<^verbatim>\<open>xs.forEach(f)\<close>\<close>

fun forEach :: "('a \<Rightarrow> unit prog) \<Rightarrow> 'a list \<Rightarrow> unit prog" where
  "forEach f [] = ret ()"
| "forEach f (x # xs) = andThen (f x) (\<lambda>_. forEach f xs)"

text \<open>The messages of the three confirmations.\<close>

definition updateMessage :: "string \<Rightarrow> string \<Rightarrow> string" where
  "updateMessage selectedTag shortCommitHash =
     ''Do you want to update tag '' @ selectedTag @ '' to point to the latest commit ('' @
     shortCommitHash @ '')?''"

definition cascadeMessage :: "string \<Rightarrow> string \<Rightarrow> string" where
  "cascadeMessage selectedTag shortCommitHash =
     ''Do you also want to update the root tag to point to the updated '' @ selectedTag @
     '' ('' @ shortCommitHash @ '')?''"

definition bumpMessage :: "string \<Rightarrow> string \<Rightarrow> string \<Rightarrow> string" where
  "bumpMessage rootTag selectedTag shortCommitHash =
     ''Do you want to bump root tag '' @ rootTag @ '' to point to the commit of tag '' @
     selectedTag @ '' ('' @ shortCommitHash @ '')?''"

definition actionChoices :: "(string \<times> string) list" where
  "actionChoices = [(''Update a Tag'', ''update''), (''Bump a Root Tag'', ''bump'')]"

text \<open>The branch \<open>action === 'update'\<close> of \<open>main\<close> (lines 149--211).\<close>

definition updateWorkflow :: "user \<Rightarrow> unit prog" where
  "updateWorkflow u =
     andThen getTags (\<lambda>tags.
     let nonRootTags = filterNonRootTags tags in
     andThen (if nonRootTags = []
              then andThen (consoleLog ''No tags available for update.'') (\<lambda>_. exitProcess 1)
              else ret ()) (\<lambda>_.
     andThen (select u ''Select a tag to update:'' (map (\<lambda>t. (t, t)) nonRootTags)) (\<lambda>selectedTag.
     andThen (if selectedTag = []
              then andThen (consoleLog ''Selected tag is undefined or null.'') (\<lambda>_. exitProcess 1)
              else ret ()) (\<lambda>_.
     andThen getLatestCommitHash (\<lambda>latestCommitHash.
     let shortCommitHash = shortenCommitHash latestCommitHash in
     andThen (confirm u (updateMessage selectedTag shortCommitHash) True) (\<lambda>confirmed.
     if confirmed then
       (let rootTag = getRootTag tags in
        if truthy rootTag then
          andThen (getCommitOfTag (the rootTag)) (\<lambda>rootTagCommitHash.
          andThen (getCommitOfTag selectedTag) (\<lambda>selectedTagCommitHash.
          if rootTagCommitHash = selectedTagCommitHash then
            andThen (updateTag selectedTag latestCommitHash) (\<lambda>updatedTag.
            andThen (changesPush updatedTag) (\<lambda>_.
            andThen (consoleLog (''Tag '' @ selectedTag @ '' was updated. Found a matching root tag '' @ the rootTag @ ''.'')) (\<lambda>_.
            andThen (confirm u (cascadeMessage selectedTag shortCommitHash) True) (\<lambda>updateRootTagConfirmed.
            if updateRootTagConfirmed then
              andThen (updateRootTag (the rootTag) latestCommitHash) (\<lambda>updatedRootTag.
              changesPush updatedRootTag)
            else consoleLog ''Root tag update skipped.''))))
          else
            andThen (updateTag selectedTag latestCommitHash) (\<lambda>updatedTag.
            changesPush updatedTag)))
        else
          andThen (updateTag selectedTag latestCommitHash) (\<lambda>updatedTag.
          changesPush updatedTag))
     else consoleLog ''Tag update canceled.''))))))"

text \<open>The branch \<open>action === 'bump'\<close> of \<open>main\<close> (lines 213--253).\<close>

definition bumpWorkflow :: "user \<Rightarrow> unit prog" where
  "bumpWorkflow u =
     andThen getTags (\<lambda>tags.
     let versionTags = filterVersionTags tags in
     andThen (if versionTags = []
              then andThen (consoleLog ''No version tags found.'') (\<lambda>_. exitProcess 1)
              else ret ()) (\<lambda>_.
     andThen (select u ''Select a version tag to bump the root tag to:''
                (map (\<lambda>t. (t, t)) versionTags)) (\<lambda>selectedTag.
     andThen (if selectedTag = []
              then andThen (consoleLog ''Selected tag is undefined or null.'') (\<lambda>_. exitProcess 1)
              else ret ()) (\<lambda>_.
     let rootTag = getRootTag tags in
     andThen (if \<not> truthy rootTag
              then andThen (consoleLog ''No root tag found. Exiting.'') (\<lambda>_. exitProcess 1)
              else ret ()) (\<lambda>_.
     andThen (getCommitOfTag selectedTag) (\<lambda>commitHash.
     let shortCommitHash = shortenCommitHash commitHash in
     andThen (confirm u (bumpMessage (the rootTag) selectedTag shortCommitHash) True) (\<lambda>confirmed.
     if confirmed then
       andThen (updateRootTag (the rootTag) commitHash) (\<lambda>updatedRootTag.
       changesPush updatedRootTag)
     else consoleLog ''Root tag update canceled.'')))))))"

text \<open>The summary at the end of \<open>main\<close> (lines 259--265).\<close>

definition summaryLine :: "change \<Rightarrow> string" where
  "summaryLine c =
     ''Tag '' @ tag c @ '': '' @ shortenCommitHash (oldCommitHash c) @ '' -> '' @
     shortenCommitHash (newCommitHash c)"

definition printSummary :: "unit prog" where
  "printSummary s =
     (if changes s \<noteq> []
      then andThen (consoleLog ''Summary of changes:'') (\<lambda>_.
           forEach (\<lambda>c. consoleLog (summaryLine c)) (changes s)) s
      else ret () s)"

text \<open>The body of the \<open>try\<close> block of \<open>main\<close>. The \<open>return\<close> of line 135 leaves
  \<open>main\<close> at once: nothing after it runs, the summary included.\<close>

definition mainBody :: "user \<Rightarrow> unit prog" where
  "mainBody u =
     andThen isGitRepo (\<lambda>isRepo.
     if \<not> isRepo then ret ()
     else
       andThen (select u ''What would you like to do?'' actionChoices) (\<lambda>action.
       andThen (if action = ''update'' then updateWorkflow u
                else if action = ''bump'' then bumpWorkflow u
                else andThen (consoleLog ''Invalid action selected.'') (\<lambda>_. exitProcess 1)) (\<lambda>_.
       printSummary)))"

text \<open>The \<open>catch\<close> block of \<open>main\<close> (lines 266--274).\<close>

definition mainCatch :: "error \<Rightarrow> unit prog" where
  "mainCatch err =
     andThen (if err = ExitPromptError
              then consoleLog ''Canceled by User''
              else andThen (consoleError ''An unexpected error occurred.'') (\<lambda>_.
                   consoleErrorObject err)) (\<lambda>_.
     exitProcess 1)"

definition main :: "user \<Rightarrow> unit prog" where
  "main u s = tryCatch (mainBody u) mainCatch (s\<lparr>changes := []\<rparr>)"

section \<open>Notions used to state the properties\<close>

text \<open>The four git commands of a retarget of \<open>name\<close> to \<open>d\<close> all succeed in \<open>s\<close>.\<close>

definition retargetOk :: "string \<Rightarrow> commit \<Rightarrow> state \<Rightarrow> bool" where
  "retargetOk name d s =
     (\<not> fails s (RevParse name) \<and> resolveRef s name \<noteq> None \<and>
      \<not> fails s (TagDelete name) \<and> map_of (localTags s) name \<noteq> None \<and>
      \<not> fails s (TagCreate name d) \<and> \<not> fails s (PushForce name))"

text \<open>The trace of a retarget whose commands all succeed.\<close>

definition retargetTrace :: "string \<Rightarrow> commit \<Rightarrow> (gitcmd \<times> bool) list" where
  "retargetTrace name d =
     [(RevParse name, True), (TagDelete name, True), (TagCreate name d, True),
      (PushForce name, True)]"

text \<open>The commands that change a tag ref, and the part of a trace made of them.\<close>

fun isMutation :: "gitcmd \<Rightarrow> bool" where
  "isMutation (TagDelete _) = True"
| "isMutation (TagCreate _ _) = True"
| "isMutation (PushForce _) = True"
| "isMutation _ = False"

fun isPush :: "gitcmd \<Rightarrow> bool" where
  "isPush (PushForce _) = True"
| "isPush _ = False"

definition mutations :: "(gitcmd \<times> bool) list \<Rightarrow> (gitcmd \<times> bool) list" where
  "mutations tr = filter (\<lambda>(c, ok). isMutation c) tr"

text \<open>The three successful steps that a Change Record stands for, and the steps of a
  list of Change Records.\<close>

definition steps :: "change \<Rightarrow> (gitcmd \<times> bool) list" where
  "steps c =
     [(TagDelete (tag c), True), (TagCreate (tag c) (newCommitHash c), True),
      (PushForce (tag c), True)]"

definition completed :: "change list \<Rightarrow> (gitcmd \<times> bool) list" where
  "completed cs = concat (map steps cs)"

text \<open>The steps of an attempt that did not complete: the last one failed and no push
  succeeded.\<close>

definition failedAttempt :: "(gitcmd \<times> bool) list \<Rightarrow> bool" where
  "failedAttempt rest =
     (rest \<noteq> [] \<and> \<not> snd (last rest) \<and> list_all (\<lambda>(c, ok). \<not> (isPush c \<and> ok)) rest)"

text \<open>
  \<open>holds I E m\<close>: from a state where \<open>I\<close> holds, \<open>m\<close> returns or throws in a state where
  \<open>I\<close> holds, or ends the process with a code \<open>n\<close> in a state where \<open>E n\<close> holds.
\<close>

definition holds :: "(state \<Rightarrow> bool) \<Rightarrow> (nat \<Rightarrow> state \<Rightarrow> bool) \<Rightarrow> 'a prog \<Rightarrow> bool" where
  "holds I E m =
     (\<forall>s. I s \<longrightarrow>
        (case m s of
           (Value x, s') \<Rightarrow> I s'
         | (Exit n, s') \<Rightarrow> E n s'
         | (Throw e, s') \<Rightarrow> I s'))"

text \<open>Every change of a tag ref in the trace is a step of a Change Record of the run.\<close>

definition accounted :: "state \<Rightarrow> bool" where
  "accounted s = (mutations (trace s) = completed (changes s))"

text \<open>At \<open>process.exit(n)\<close>: the code is 1, and the changes of tag refs that no Change
  Record stands for are the steps of one attempt that failed.\<close>

definition accountedAtExit :: "nat \<Rightarrow> state \<Rightarrow> bool" where
  "accountedAtExit n s =
     (n = 1 \<and>
      (\<exists>rest. mutations (trace s) = completed (changes s) @ rest \<and>
              (rest = [] \<or> failedAttempt rest)))"

text \<open>The line \<open>msg\<close> was not printed with \<open>console.log\<close>.\<close>

definition neverSaid :: "string \<Rightarrow> state \<Rightarrow> bool" where
  "neverSaid msg s = (Log msg \<notin> set (console s))"

section \<open>A repository and users to run the program on\<close>

text \<open>A repository with the root tag \<open>v1\<close>, the version tag \<open>v1.2.0\<close> on the same
  commit and \<open>v2.0.0\<close> on another one; \<open>HEAD\<close> is a third commit.\<close>

definition exampleRepo :: state where
  "exampleRepo =
     \<lparr>repoPresent = True,
      localTags = [(''v1'', ''1111111aaa''), (''v1.2.0'', ''1111111aaa''), (''v2.0.0'', ''2222222bbb'')],
      remoteTags = [(''v1'', ''1111111aaa''), (''v1.2.0'', ''1111111aaa''), (''v2.0.0'', ''2222222bbb'')],
      headCommit = Some ''3333333ccc'',
      faults = (\<lambda>_. False),
      changes = [], trace = [], asked = [], console = []\<rparr>"

text \<open>A user who picks \<open>action\<close>, then the tag \<open>name\<close>, and answers every confirmation
  with \<open>yes\<close>.\<close>

definition answering :: "string \<Rightarrow> string \<Rightarrow> bool \<Rightarrow> user" where
  "answering action name yes =
     \<lparr>selects = (\<lambda>message choices.
         Answer (if message = ''What would you like to do?'' then action else name)),
      confirms = (\<lambda>message dflt. Answer yes)\<rparr>"

text \<open>A user whose first prompt rejects with \<open>e\<close>.\<close>

definition rejecting :: "error \<Rightarrow> user" where
  "rejecting e =
     \<lparr>selects = (\<lambda>message choices. Rejects e), confirms = (\<lambda>message dflt. Rejects e)\<rparr>"

section \<open>Facts about the classifier\<close>

lemma testRootPattern_nonempty: "testRootPattern t \<Longrightarrow> t \<noteq> []"
  by (auto simp: testRootPattern_def)

lemma testRootPattern_not_HEAD: "testRootPattern R \<Longrightarrow> R \<noteq> ''HEAD''"
  by (auto simp: testRootPattern_def)

lemma testVersion_imp_testRoot: "testVersionPattern t \<Longrightarrow> testRootPattern t"
  by (auto simp: testVersionPattern_def testRootPattern_def split: list.splits)

lemma getRootTag_Some_iff:
  "getRootTag tags = Some r \<longleftrightarrow>
     (\<exists>pre post. tags = pre @ r # post \<and> testRootPattern r \<and> (\<forall>t \<in> set pre. \<not> testRootPattern t))"
proof -
  have "find testRootPattern tags = Some r \<longleftrightarrow>
      (\<exists>i<length tags. testRootPattern (tags ! i) \<and> r = tags ! i \<and> (\<forall>j<i. \<not> testRootPattern (tags ! j)))"
    by (rule find_Some_iff)
  also have "\<dots> \<longleftrightarrow> (\<exists>pre post. tags = pre @ r # post \<and> testRootPattern r \<and> (\<forall>t \<in> set pre. \<not> testRootPattern t))"
  proof
    assume "\<exists>i<length tags. testRootPattern (tags ! i) \<and> r = tags ! i \<and> (\<forall>j<i. \<not> testRootPattern (tags ! j))"
    then obtain i where i: "i < length tags" "testRootPattern (tags ! i)" "r = tags ! i"
      "\<forall>j<i. \<not> testRootPattern (tags ! j)" by blast
    have "tags = take i tags @ r # drop (Suc i) tags"
      using i(1,3) by (simp add: id_take_nth_drop)
    moreover have "\<forall>t \<in> set (take i tags). \<not> testRootPattern t"
      using i(1,4) by (auto simp: in_set_conv_nth)
    ultimately show "\<exists>pre post. tags = pre @ r # post \<and> testRootPattern r \<and> (\<forall>t \<in> set pre. \<not> testRootPattern t)"
      using i(2,3) by blast
  next
    assume "\<exists>pre post. tags = pre @ r # post \<and> testRootPattern r \<and> (\<forall>t \<in> set pre. \<not> testRootPattern t)"
    then obtain pre post where p: "tags = pre @ r # post" "testRootPattern r"
      "\<forall>t \<in> set pre. \<not> testRootPattern t" by blast
    have "length pre < length tags" using p(1) by simp
    moreover have "tags ! length pre = r" using p(1) by simp
    moreover have "\<forall>j<length pre. \<not> testRootPattern (tags ! j)"
      using p(1,3) by (simp add: nth_append)
    ultimately show "\<exists>i<length tags. testRootPattern (tags ! i) \<and> r = tags ! i \<and> (\<forall>j<i. \<not> testRootPattern (tags ! j))"
      using p(2) by blast
  qed
  finally show ?thesis by (simp add: getRootTag_def)
qed

lemma getRootTag_None_iff: "getRootTag tags = None \<longleftrightarrow> (\<forall>t \<in> set tags. \<not> testRootPattern t)"
  by (auto simp: getRootTag_def find_None_iff)

lemma getRootTag_truthy: "truthy (getRootTag tags) \<longleftrightarrow> getRootTag tags \<noteq> None"
proof (cases "getRootTag tags")
  case None
  then show ?thesis by (simp add: truthy_def)
next
  case (Some r)
  then have "testRootPattern r" by (auto simp: getRootTag_Some_iff)
  then have "r \<noteq> []" by (rule testRootPattern_nonempty)
  with Some show ?thesis by (simp add: truthy_def)
qed

lemma filterNonRootTags_Some:
  "getRootTag tags = Some r \<Longrightarrow> filterNonRootTags tags = filter (\<lambda>t. t \<noteq> r) tags"
  using getRootTag_truthy [of tags] by (simp add: filterNonRootTags_def Let_def)

lemma filterNonRootTags_None: "getRootTag tags = None \<Longrightarrow> filterNonRootTags tags = tags"
  by (simp add: filterNonRootTags_def Let_def truthy_def)

lemma getRootTag_SomeD:
  assumes "getRootTag tags = Some R"
  shows "testRootPattern R" "R \<in> set tags" "R \<noteq> []" "R \<noteq> ''HEAD''" "truthy (Some R)"
        "R \<notin> set (filterNonRootTags tags)"
proof -
  show t: "testRootPattern R" and "R \<in> set tags"
    using assms by (auto simp: getRootTag_Some_iff)
  from t show n: "R \<noteq> []" by (rule testRootPattern_nonempty)
  from t show "R \<noteq> ''HEAD''" by (rule testRootPattern_not_HEAD)
  from n show "truthy (Some R)" by (simp add: truthy_def)
  show "R \<notin> set (filterNonRootTags tags)"
    by (simp add: filterNonRootTags_Some [OF assms])
qed

lemma offered_is_tag: "S \<in> set (filterNonRootTags tags) \<Longrightarrow> S \<in> set tags"
  by (auto simp: filterNonRootTags_def Let_def split: if_splits)

lemma versionTags_have_root:
  assumes "filterVersionTags tags \<noteq> []"
  shows "getRootTag tags \<noteq> None" "truthy (getRootTag tags)"
proof -
  from assms obtain t where "t \<in> set tags" "testVersionPattern t"
    by (auto simp: filterVersionTags_def filter_empty_conv)
  then have "\<exists>t \<in> set tags. testRootPattern t"
    using testVersion_imp_testRoot by blast
  then show "getRootTag tags \<noteq> None" by (simp add: getRootTag_None_iff)
  then show "truthy (getRootTag tags)" by (simp add: getRootTag_truthy)
qed

lemma count_list_filter_neq: "t \<noteq> r \<Longrightarrow> count_list (filter (\<lambda>x. x \<noteq> r) xs) t = count_list xs t"
  by (induction xs) auto

lemma filter_neq_remove1: "distinct xs \<Longrightarrow> filter (\<lambda>x. x \<noteq> r) xs = remove1 r xs"
  by (induction xs) (auto simp: remove1_idem)

section \<open>What each function does, by the first command that fails\<close>

lemmas prog_defs = ret_def exitProcess_def throwError_def andThen_def tryCatch_def
  consoleLog_def consoleError_def consoleErrorObject_def select_def confirm_def
  logged_def rejected_def changesPush_def

lemmas git_defs = gitStatus_def gitFetchTags_def gitTags_def gitRevParse_def gitTagDelete_def
  gitTagCreate_def gitPushForce_def

lemma fails_upd [simp]:
  "fails (s\<lparr>trace := t\<rparr>) = fails s"
  "fails (s\<lparr>console := c\<rparr>) = fails s"
  "fails (s\<lparr>asked := a\<rparr>) = fails s"
  "fails (s\<lparr>changes := ch\<rparr>) = fails s"
  "fails (s\<lparr>localTags := l\<rparr>) = fails s"
  "fails (s\<lparr>remoteTags := r\<rparr>) = fails s"
  by (simp_all add: fails_def fun_eq_iff)

lemma fetchedTags_upd [simp]:
  "fetchedTags (s\<lparr>trace := t\<rparr>) = fetchedTags s"
  "fetchedTags (s\<lparr>console := c\<rparr>) = fetchedTags s"
  "fetchedTags (s\<lparr>asked := a\<rparr>) = fetchedTags s"
  "fetchedTags (s\<lparr>changes := ch\<rparr>) = fetchedTags s"
  by (simp_all add: fetchedTags_def)

lemma map_of_tag: "S \<in> set (map fst l) \<Longrightarrow> map_of l S \<noteq> None"
  by (simp add: map_of_eq_None_iff)

lemma map_of_recreated:
  "([name \<mapsto> d] ++ map_of (AList.delete name l)) x = (if x = name then Some d else map_of l x)"
  by (auto simp: AList.delete_conv' map_add_def split: option.splits)

lemma isGitRepo_eq:
  "isGitRepo s =
     (if fails s Status
      then (Value False, s\<lparr>trace := trace s @ [(Status, False)],
                            console := console s @ [Log ''Not a Git repository.'']\<rparr>)
      else (Value True, s\<lparr>trace := trace s @ [(Status, True)]\<rparr>))"
  by (simp add: isGitRepo_def gitStatus_def prog_defs)

lemma getTags_eq:
  "getTags s =
     (if fails s FetchTags
      then (Exit 1, s\<lparr>trace := trace s @ [(FetchTags, False)],
                      console := console s @ [Error ''Error fetching tags.'']\<rparr>)
      else if fails s ListTags
      then (Exit 1, s\<lparr>localTags := fetchedTags s,
                      trace := trace s @ [(FetchTags, True), (ListTags, False)],
                      console := console s @ [Error ''Error fetching tags.'']\<rparr>)
      else (Value (map fst (fetchedTags s)),
            s\<lparr>localTags := fetchedTags s,
              trace := trace s @ [(FetchTags, True), (ListTags, True)]\<rparr>))"
  by (simp add: getTags_def gitFetchTags_def gitTags_def prog_defs)

lemma getLatestCommitHash_eq:
  "getLatestCommitHash s =
     (if fails s (RevParse ''HEAD'') \<or> headCommit s = None
      then (Exit 1, s\<lparr>trace := trace s @ [(RevParse ''HEAD'', False)],
                      console := console s @ [Error ''Error retrieving latest commit hash.'']\<rparr>)
      else (Value (the (headCommit s)), s\<lparr>trace := trace s @ [(RevParse ''HEAD'', True)]\<rparr>))"
  by (auto simp: getLatestCommitHash_def gitRevParse_def resolveRef_def prog_defs split: option.splits)

lemma getCommitOfTag_eq:
  "getCommitOfTag name s =
     (if fails s (RevParse name) \<or> resolveRef s name = None
      then (Exit 1, s\<lparr>trace := trace s @ [(RevParse name, False)],
                      console := console s @ [Error ''Error retrieving commit hash for tag.'']\<rparr>)
      else (Value (the (resolveRef s name)), s\<lparr>trace := trace s @ [(RevParse name, True)]\<rparr>))"
  by (auto simp: getCommitOfTag_def gitRevParse_def prog_defs split: option.splits)

lemma updateTag_eq:
  "updateTag name d s =
     (if fails s (RevParse name) \<or> resolveRef s name = None
      then (Exit 1, s\<lparr>trace := trace s @ [(RevParse name, False)],
                      console := console s @ [Error ''Error retrieving commit hash for tag.'']\<rparr>)
      else if fails s (TagDelete name) \<or> map_of (localTags s) name = None
      then (Exit 1, s\<lparr>trace := trace s @ [(RevParse name, True), (TagDelete name, False)],
                      console := console s @
                        [Log (''Updating tag '' @ name @ '' to point to commit '' @ shortenCommitHash d),
                         Error ''Error deleting local tag.'']\<rparr>)
      else if fails s (TagCreate name d)
      then (Exit 1, s\<lparr>localTags := AList.delete name (localTags s),
                      trace := trace s @
                        [(RevParse name, True), (TagDelete name, True), (TagCreate name d, False)],
                      console := console s @
                        [Log (''Updating tag '' @ name @ '' to point to commit '' @ shortenCommitHash d),
                         Log (''Local tag '' @ name @ '' deleted.''),
                         Error ''Error updating tag.'',
                         ErrorObject (GitError (TagCreate name d))]\<rparr>)
      else if fails s (PushForce name)
      then (Exit 1, s\<lparr>localTags := AList.delete name (localTags s) @ [(name, d)],
                      trace := trace s @
                        [(RevParse name, True), (TagDelete name, True), (TagCreate name d, True),
                         (PushForce name, False)],
                      console := console s @
                        [Log (''Updating tag '' @ name @ '' to point to commit '' @ shortenCommitHash d),
                         Log (''Local tag '' @ name @ '' deleted.''),
                         Error ''Error force-pushing tag.'']\<rparr>)
      else (Value \<lparr>tag = name, oldCommitHash = the (resolveRef s name), newCommitHash = d\<rparr>,
            s\<lparr>localTags := AList.delete name (localTags s) @ [(name, d)],
              remoteTags := AList.update name d (remoteTags s),
              trace := trace s @ retargetTrace name d,
              console := console s @
                [Log (''Updating tag '' @ name @ '' to point to commit '' @ shortenCommitHash d),
                 Log (''Local tag '' @ name @ '' deleted.''),
                 Log (''Tag '' @ name @ '' force-pushed to GitHub.''),
                 Log (''Tag '' @ name @ '' updated from '' @
                      shortenCommitHash (the (resolveRef s name)) @ '' to '' @ shortenCommitHash d)]\<rparr>))"
  by (auto simp: updateTag_def getCommitOfTag_eq deleteLocalTag_def forcePushTag_def git_defs prog_defs Let_def
       AList.delete_conv' retargetTrace_def split: option.splits)

lemma updateRootTag_eq:
  "updateRootTag name d s =
     (if fails s (RevParse name) \<or> resolveRef s name = None
      then (Exit 1, s\<lparr>trace := trace s @ [(RevParse name, False)],
                      console := console s @ [Error ''Error retrieving commit hash for tag.'']\<rparr>)
      else if fails s (TagDelete name) \<or> map_of (localTags s) name = None
      then (Exit 1, s\<lparr>trace := trace s @ [(RevParse name, True), (TagDelete name, False)],
                      console := console s @
                        [Log (''Updating root tag '' @ name @ '' to point to commit '' @ shortenCommitHash d),
                         Error ''Error deleting local tag.'']\<rparr>)
      else if fails s (TagCreate name d)
      then (Exit 1, s\<lparr>localTags := AList.delete name (localTags s),
                      trace := trace s @
                        [(RevParse name, True), (TagDelete name, True), (TagCreate name d, False)],
                      console := console s @
                        [Log (''Updating root tag '' @ name @ '' to point to commit '' @ shortenCommitHash d),
                         Log (''Local tag '' @ name @ '' deleted.''),
                         Error ''Error updating root tag.'',
                         ErrorObject (GitError (TagCreate name d))]\<rparr>)
      else if fails s (PushForce name)
      then (Exit 1, s\<lparr>localTags := AList.delete name (localTags s) @ [(name, d)],
                      trace := trace s @
                        [(RevParse name, True), (TagDelete name, True), (TagCreate name d, True),
                         (PushForce name, False)],
                      console := console s @
                        [Log (''Updating root tag '' @ name @ '' to point to commit '' @ shortenCommitHash d),
                         Log (''Local tag '' @ name @ '' deleted.''),
                         Error ''Error force-pushing tag.'']\<rparr>)
      else (Value \<lparr>tag = name, oldCommitHash = the (resolveRef s name), newCommitHash = d\<rparr>,
            s\<lparr>localTags := AList.delete name (localTags s) @ [(name, d)],
              remoteTags := AList.update name d (remoteTags s),
              trace := trace s @ retargetTrace name d,
              console := console s @
                [Log (''Updating root tag '' @ name @ '' to point to commit '' @ shortenCommitHash d),
                 Log (''Local tag '' @ name @ '' deleted.''),
                 Log (''Tag '' @ name @ '' force-pushed to GitHub.''),
                 Log (''Root tag '' @ name @ '' updated from '' @
                      shortenCommitHash (the (resolveRef s name)) @ '' to '' @ shortenCommitHash d)]\<rparr>))"
  by (auto simp: updateRootTag_def getCommitOfTag_eq deleteLocalTag_def forcePushTag_def git_defs prog_defs Let_def
       AList.delete_conv' retargetTrace_def split: option.splits)

lemma andThen_exit_absorb:
  "andThen (andThen m (\<lambda>_. exitProcess n)) k = andThen m (\<lambda>_. exitProcess n)"
  by (auto simp: andThen_def exitProcess_def fun_eq_iff split: prod.splits result.splits)

lemma andThen_changesPush:
  "andThen m (\<lambda>c. andThen (changesPush c) k) = andThen (andThen m changesPush) k"
  by (auto simp: andThen_def fun_eq_iff split: prod.splits result.splits)

section \<open>Invariants of a run\<close>

lemma holds_ret: "holds I E (ret x)"
  by (simp add: holds_def ret_def)

lemma holds_exit: "(\<And>s. I s \<Longrightarrow> E n s) \<Longrightarrow> holds I E (exitProcess n)"
  by (simp add: holds_def exitProcess_def)

lemma holds_andThen:
  assumes "holds I E m" and "\<And>x. holds I E (f x)"
  shows "holds I E (andThen m f)"
  unfolding holds_def andThen_def
proof (intro allI impI)
  fix s assume "I s"
  with assms(1) have m: "case m s of (Value x, s') \<Rightarrow> I s' | (Exit n, s') \<Rightarrow> E n s' | (Throw e, s') \<Rightarrow> I s'"
    by (simp add: holds_def)
  obtain r s1 where ms: "m s = (r, s1)" by (cases "m s")
  show "case (case m s of (Value x, s') \<Rightarrow> f x s' | (Exit n, s') \<Rightarrow> (Exit n, s')
               | (Throw e, s') \<Rightarrow> (Throw e, s')) of
          (Value x, s') \<Rightarrow> I s' | (Exit n, s') \<Rightarrow> E n s' | (Throw e, s') \<Rightarrow> I s'"
  proof (cases r)
    case (Value x)
    with m ms have "I s1" by simp
    with assms(2) [of x] show ?thesis using ms Value by (simp add: holds_def)
  next
    case (Exit n)
    with m ms show ?thesis by simp
  next
    case (Throw e)
    with m ms show ?thesis by simp
  qed
qed

lemma holds_tryCatch:
  assumes "holds I E m" and "\<And>e. holds I E (h e)"
  shows "holds I E (tryCatch m h)"
  unfolding holds_def tryCatch_def
proof (intro allI impI)
  fix s assume "I s"
  with assms(1) have m: "case m s of (Value x, s') \<Rightarrow> I s' | (Exit n, s') \<Rightarrow> E n s' | (Throw e, s') \<Rightarrow> I s'"
    by (simp add: holds_def)
  obtain r s1 where ms: "m s = (r, s1)" by (cases "m s")
  show "case (case m s of (Throw e, s') \<Rightarrow> h e s' | (Value x, s') \<Rightarrow> (Value x, s')
               | (Exit n, s') \<Rightarrow> (Exit n, s')) of
          (Value x, s') \<Rightarrow> I s' | (Exit n, s') \<Rightarrow> E n s' | (Throw e, s') \<Rightarrow> I s'"
  proof (cases r)
    case (Value x)
    with m ms show ?thesis by simp
  next
    case (Exit n)
    with m ms show ?thesis by simp
  next
    case (Throw e)
    with m ms have "I s1" by simp
    with assms(2) [of e] show ?thesis using ms Throw by (simp add: holds_def)
  qed
qed

lemma holds_if:
  "(c \<Longrightarrow> holds I E a) \<Longrightarrow> (\<not> c \<Longrightarrow> holds I E b) \<Longrightarrow> holds I E (if c then a else b)"
  by simp

lemma holds_forEach: "(\<And>x. holds I E (f x)) \<Longrightarrow> holds I E (forEach f xs)"
  by (induction xs) (simp_all add: holds_ret holds_andThen)

lemma holds_printSummary:
  assumes "\<And>m. holds I E (consoleLog (''Summary of changes:'' @ m))"
    and "\<And>c. holds I E (consoleLog (summaryLine c))"
  shows "holds I E printSummary"
proof -
  have p: "holds I E (andThen (consoleLog ''Summary of changes:'')
             (\<lambda>_. forEach (\<lambda>c. consoleLog (summaryLine c)) cs))" for cs
    using assms(1) [of "[]"] assms(2) by (intro holds_andThen holds_forEach) simp_all
  have r: "holds I E (ret ())" by (rule holds_ret)
  show ?thesis
    unfolding holds_def
  proof (intro allI impI)
    fix s assume "I s"
    then show "case printSummary s of (Value x, s') \<Rightarrow> I s' | (Exit n, s') \<Rightarrow> E n s'
                 | (Throw e, s') \<Rightarrow> I s'"
      using p [of "changes s"] r by (simp add: printSummary_def holds_def)
  qed
qed

lemma holds_snd:
  assumes "holds I (\<lambda>n. I) m" and "I s"
  shows "I (snd (m s))"
proof -
  obtain r s' where ms: "m s = (r, s')" by (cases "m s")
  from assms have "case m s of (Value x, s') \<Rightarrow> I s' | (Exit n, s') \<Rightarrow> I s' | (Throw e, s') \<Rightarrow> I s'"
    by (simp add: holds_def)
  with ms show ?thesis by (cases r) simp_all
qed

subsection \<open>Every change of a tag ref is accounted for by a Change Record\<close>

lemma mutations_append [simp]: "mutations (a @ b) = mutations a @ mutations b"
  by (simp add: mutations_def)

lemma mutations_Nil [simp]: "mutations [] = []"
  by (simp add: mutations_def)

lemma mutations_Cons [simp]:
  "mutations ((c, ok) # tr) = (if isMutation c then (c, ok) # mutations tr else mutations tr)"
  by (simp add: mutations_def)

lemma completed_snoc [simp]: "completed (cs @ [c]) = completed cs @ steps c"
  by (simp add: completed_def)

lemma completed_Nil [simp]: "completed [] = []"
  by (simp add: completed_def)

lemma completed_all_ok: "(c, ok) \<in> set (completed cs) \<Longrightarrow> ok"
  by (auto simp: completed_def steps_def)

lemma accounted_frame [simp]:
  "accounted (s\<lparr>console := c\<rparr>) = accounted s"
  "accounted (s\<lparr>asked := a\<rparr>) = accounted s"
  "accounted (s\<lparr>localTags := l\<rparr>) = accounted s"
  "accounted (s\<lparr>remoteTags := r\<rparr>) = accounted s"
  by (simp_all add: accounted_def)

lemma accountedAtExit_frame [simp]:
  "accountedAtExit n (s\<lparr>console := c\<rparr>) = accountedAtExit n s"
  "accountedAtExit n (s\<lparr>asked := a\<rparr>) = accountedAtExit n s"
  "accountedAtExit n (s\<lparr>localTags := l\<rparr>) = accountedAtExit n s"
  "accountedAtExit n (s\<lparr>remoteTags := r\<rparr>) = accountedAtExit n s"
  by (simp_all add: accountedAtExit_def)

lemma accounted_exit: "accounted s \<Longrightarrow> accountedAtExit 1 s"
  by (simp add: accounted_def accountedAtExit_def)

lemma accounted_console:
  "holds accounted accountedAtExit (consoleLog m)"
  "holds accounted accountedAtExit (consoleError m)"
  "holds accounted accountedAtExit (consoleErrorObject e)"
  by (simp_all add: holds_def consoleLog_def consoleError_def consoleErrorObject_def)

lemma accounted_prompts:
  "holds accounted accountedAtExit (select u m cs)"
  "holds accounted accountedAtExit (confirm u m d)"
  by (simp_all add: holds_def select_def confirm_def Let_def split: answer.splits)

lemma accounted_reads:
  "holds accounted accountedAtExit isGitRepo"
  "holds accounted accountedAtExit getTags"
  "holds accounted accountedAtExit getLatestCommitHash"
  "holds accounted accountedAtExit (getCommitOfTag name)"
  by (simp_all add: holds_def isGitRepo_eq getTags_eq getLatestCommitHash_eq getCommitOfTag_eq
        accounted_def accountedAtExit_def)

lemma accounted_exitProcess: "holds accounted accountedAtExit (exitProcess 1)"
  by (rule holds_exit) (rule accounted_exit)

lemma accounted_updateTag:
  "holds accounted accountedAtExit (andThen (updateTag name d) changesPush)"
  by (auto simp: holds_def andThen_def changesPush_def updateTag_eq accounted_def accountedAtExit_def
        retargetTrace_def steps_def failedAttempt_def)

lemma accounted_updateRootTag:
  "holds accounted accountedAtExit (andThen (updateRootTag name d) changesPush)"
  by (auto simp: holds_def andThen_def changesPush_def updateRootTag_eq accounted_def accountedAtExit_def
        retargetTrace_def steps_def failedAttempt_def)

lemmas accounted_rules =
  accounted_updateTag accounted_updateRootTag accounted_console accounted_prompts accounted_reads
  accounted_exitProcess holds_ret

lemma accounted_printSummary: "holds accounted accountedAtExit printSummary"
  by (rule holds_printSummary) (rule accounted_console)+

lemma accounted_updateWorkflow: "holds accounted accountedAtExit (updateWorkflow u)"
  unfolding updateWorkflow_def Let_def andThen_changesPush
  by (rule accounted_rules | rule holds_andThen | rule holds_if)+

lemma accounted_bumpWorkflow: "holds accounted accountedAtExit (bumpWorkflow u)"
  unfolding bumpWorkflow_def Let_def andThen_changesPush
  by (rule accounted_rules | rule holds_andThen | rule holds_if)+

lemma accounted_mainBody: "holds accounted accountedAtExit (mainBody u)"
  unfolding mainBody_def
  by (rule accounted_rules accounted_printSummary accounted_updateWorkflow accounted_bumpWorkflow
      | rule holds_andThen | rule holds_if)+

lemma accounted_mainCatch: "holds accounted accountedAtExit (mainCatch e)"
  unfolding mainCatch_def
  by (rule accounted_rules | rule holds_andThen | rule holds_if)+

lemma accounted_main:
  assumes "trace s = []" and "main u s = (r, s')"
  shows "case r of Exit n \<Rightarrow> accountedAtExit n s' | _ \<Rightarrow> accounted s'"
proof -
  have "holds accounted accountedAtExit (tryCatch (mainBody u) mainCatch)"
    by (intro holds_tryCatch accounted_mainBody accounted_mainCatch)
  moreover have "accounted (s\<lparr>changes := []\<rparr>)"
    using assms(1) by (simp add: accounted_def)
  ultimately show ?thesis
    using assms(2) by (auto simp: holds_def main_def split: result.splits)
qed

subsection \<open>A line that is never printed\<close>

lemma neverSaid_frame [simp]:
  "neverSaid msg (s\<lparr>trace := t\<rparr>) = neverSaid msg s"
  "neverSaid msg (s\<lparr>asked := a\<rparr>) = neverSaid msg s"
  "neverSaid msg (s\<lparr>changes := ch\<rparr>) = neverSaid msg s"
  "neverSaid msg (s\<lparr>localTags := l\<rparr>) = neverSaid msg s"
  "neverSaid msg (s\<lparr>remoteTags := r\<rparr>) = neverSaid msg s"
  by (simp_all add: neverSaid_def)

lemma quiet_console:
  "m \<noteq> msg \<Longrightarrow> holds (neverSaid msg) (\<lambda>n. neverSaid msg) (consoleLog m)"
  "holds (neverSaid msg) (\<lambda>n. neverSaid msg) (consoleError m)"
  "holds (neverSaid msg) (\<lambda>n. neverSaid msg) (consoleErrorObject e)"
  by (simp_all add: holds_def consoleLog_def consoleError_def consoleErrorObject_def neverSaid_def)

lemma quiet_prompts:
  "holds (neverSaid msg) (\<lambda>n. neverSaid msg) (select u m cs)"
  "holds (neverSaid msg) (\<lambda>n. neverSaid msg) (confirm u m d)"
  by (simp_all add: holds_def select_def confirm_def Let_def split: answer.splits)

lemma quiet_changesPush: "holds (neverSaid msg) (\<lambda>n. neverSaid msg) (changesPush c)"
  by (simp add: holds_def changesPush_def)

lemma quiet_exitProcess: "holds (neverSaid msg) (\<lambda>n. neverSaid msg) (exitProcess n)"
  by (simp add: holds_exit)

lemma quiet_reads:
  "holds (neverSaid ''No root tag found. Exiting.'') (\<lambda>n. neverSaid ''No root tag found. Exiting.'') isGitRepo"
  "holds (neverSaid ''No root tag found. Exiting.'') (\<lambda>n. neverSaid ''No root tag found. Exiting.'') getTags"
  "holds (neverSaid ''No root tag found. Exiting.'') (\<lambda>n. neverSaid ''No root tag found. Exiting.'') getLatestCommitHash"
  "holds (neverSaid ''No root tag found. Exiting.'') (\<lambda>n. neverSaid ''No root tag found. Exiting.'') (getCommitOfTag name)"
  by (simp_all add: holds_def isGitRepo_eq getTags_eq getLatestCommitHash_eq getCommitOfTag_eq
        neverSaid_def)

lemma quiet_retargets:
  "holds (neverSaid ''No root tag found. Exiting.'') (\<lambda>n. neverSaid ''No root tag found. Exiting.'') (updateTag name d)"
  "holds (neverSaid ''No root tag found. Exiting.'') (\<lambda>n. neverSaid ''No root tag found. Exiting.'') (updateRootTag name d)"
  by (simp_all add: holds_def updateTag_eq updateRootTag_eq neverSaid_def)

lemmas quiet_rules =
  quiet_retargets quiet_reads quiet_console(2,3) quiet_prompts quiet_changesPush quiet_exitProcess
  holds_ret

lemma quiet_printSummary:
  "holds (neverSaid ''No root tag found. Exiting.'') (\<lambda>n. neverSaid ''No root tag found. Exiting.'') printSummary"
  by (rule holds_printSummary; rule quiet_console) (simp_all add: summaryLine_def)

lemma quiet_updateWorkflow:
  "holds (neverSaid ''No root tag found. Exiting.'') (\<lambda>n. neverSaid ''No root tag found. Exiting.'') (updateWorkflow u)"
  unfolding updateWorkflow_def Let_def
  by (rule quiet_rules | rule holds_andThen | rule holds_if | rule quiet_console(1) | simp)+

lemma andThen_ret [simp]: "andThen (ret x) f = f x"
  by (simp add: andThen_def ret_def fun_eq_iff)

lemma quiet_bumpWorkflow:
  "holds (neverSaid ''No root tag found. Exiting.'') (\<lambda>n. neverSaid ''No root tag found. Exiting.'') (bumpWorkflow u)"
  unfolding bumpWorkflow_def Let_def
proof (rule holds_andThen [OF quiet_reads(2)])
  fix tags :: "string list"
  let ?I = "neverSaid ''No root tag found. Exiting.''"
  let ?rest = "\<lambda>k. andThen
        (if filterVersionTags tags = []
         then andThen (consoleLog ''No version tags found.'') (\<lambda>_. exitProcess 1) else ret ()) k"
  show "holds ?I (\<lambda>n. ?I)
          (andThen
            (if filterVersionTags tags = []
             then andThen (consoleLog ''No version tags found.'') (\<lambda>_. exitProcess 1) else ret ())
            (\<lambda>_. andThen
                  (select u ''Select a version tag to bump the root tag to:''
                    (map (\<lambda>t. (t, t)) (filterVersionTags tags)))
                  (\<lambda>selectedTag.
                      andThen
                       (if selectedTag = []
                        then andThen (consoleLog ''Selected tag is undefined or null.'')
                              (\<lambda>_. exitProcess 1)
                        else ret ())
                       (\<lambda>_. andThen
                             (if \<not> truthy (getRootTag tags)
                              then andThen (consoleLog ''No root tag found. Exiting.'')
                                    (\<lambda>_. exitProcess 1)
                              else ret ())
                             (\<lambda>_. andThen (getCommitOfTag selectedTag)
                                   (\<lambda>commitHash.
                                       andThen
                                        (confirm u
                                          (bumpMessage (the (getRootTag tags)) selectedTag
                                            (shortenCommitHash commitHash))
                                          True)
                                        (\<lambda>confirmed.
                                            if confirmed
                                            then andThen
                                                  (updateRootTag (the (getRootTag tags)) commitHash)
                                                  (\<lambda>updatedRootTag. changesPush updatedRootTag)
                                            else consoleLog ''Root tag update canceled.'')))))))"
  proof (cases "filterVersionTags tags = []")
    case True
    show ?thesis
      apply (simp only: True if_True andThen_exit_absorb simp_thms)
      apply (rule quiet_rules | rule holds_andThen | rule quiet_console(1) | simp)+
      done
  next
    case False
    from versionTags_have_root(2) [OF False] have t: "truthy (getRootTag tags)" .
    show ?thesis
      using False t
      apply (simp only: if_False not_True_eq_False simp_thms andThen_ret)
      apply (rule quiet_rules | rule holds_andThen | rule holds_if | rule quiet_console(1) | simp)+
      done
  qed
qed

lemma quiet_mainBody:
  "holds (neverSaid ''No root tag found. Exiting.'') (\<lambda>n. neverSaid ''No root tag found. Exiting.'') (mainBody u)"
  unfolding mainBody_def
  by (rule quiet_rules quiet_printSummary quiet_updateWorkflow quiet_bumpWorkflow
      | rule holds_andThen | rule holds_if | rule quiet_console(1) | simp)+

lemma quiet_mainCatch:
  "holds (neverSaid ''No root tag found. Exiting.'') (\<lambda>n. neverSaid ''No root tag found. Exiting.'') (mainCatch e)"
  unfolding mainCatch_def
  by (rule quiet_rules | rule holds_andThen | rule holds_if | rule quiet_console(1) | simp)+

lemma quiet_main:
  assumes "neverSaid ''No root tag found. Exiting.'' s"
  shows "neverSaid ''No root tag found. Exiting.'' (snd (main u s))"
proof -
  have "holds (neverSaid ''No root tag found. Exiting.'') (\<lambda>n. neverSaid ''No root tag found. Exiting.'')
          (tryCatch (mainBody u) mainCatch)"
    by (intro holds_tryCatch quiet_mainBody quiet_mainCatch)
  moreover have "neverSaid ''No root tag found. Exiting.'' (s\<lparr>changes := []\<rparr>)"
    using assms by simp
  ultimately have "neverSaid ''No root tag found. Exiting.''
      (snd (tryCatch (mainBody u) mainCatch (s\<lparr>changes := []\<rparr>)))"
    by (rule holds_snd)
  then show ?thesis by (simp add: main_def)
qed

section \<open>Running the program on the example repository\<close>

lemma exampleRepo_simps [simp]:
  "repoPresent exampleRepo"
  "localTags exampleRepo = [(''v1'', ''1111111aaa''), (''v1.2.0'', ''1111111aaa''), (''v2.0.0'', ''2222222bbb'')]"
  "remoteTags exampleRepo = [(''v1'', ''1111111aaa''), (''v1.2.0'', ''1111111aaa''), (''v2.0.0'', ''2222222bbb'')]"
  "headCommit exampleRepo = Some ''3333333ccc''"
  "faults exampleRepo = (\<lambda>_. False)"
  "changes exampleRepo = []" "trace exampleRepo = []" "asked exampleRepo = []" "console exampleRepo = []"
  by (simp_all add: exampleRepo_def)

lemma fails_exampleRepo [simp]: "\<not> fails exampleRepo c"
  by (simp add: fails_def)

lemma exampleRepo_fetched [simp]: "fetchedTags exampleRepo = localTags exampleRepo"
  by (simp add: fetchedTags_def)

lemmas run_simps =
  main_def mainBody_def mainCatch_def updateWorkflow_def bumpWorkflow_def printSummary_def
  isGitRepo_eq getTags_eq getLatestCommitHash_eq getCommitOfTag_eq updateTag_eq updateRootTag_eq
  select_def confirm_def andThen_def tryCatch_def ret_def exitProcess_def consoleLog_def
  consoleError_def consoleErrorObject_def changesPush_def Let_def actionChoices_def

lemmas example_simps =
  answering_def rejecting_def fails_def fetchedTags_def resolveRef_def filterNonRootTags_def
  filterVersionTags_def getRootTag_def truthy_def testRootPattern_def testVersionPattern_def
  isDigit_def retargetTrace_def

lemma exampleRepo_tags:
  "getRootTag (map fst (fetchedTags exampleRepo)) = Some ''v1''"
  "filterNonRootTags (map fst (fetchedTags exampleRepo)) = [''v1.2.0'', ''v2.0.0'']"
  "filterVersionTags (map fst (fetchedTags exampleRepo)) = [''v1.2.0'', ''v2.0.0'']"
  by (simp_all add: example_simps)

section \<open>The properties\<close>

text \<open>
  \<^bold>\<open>C1\<close> (tag classifier). The specification says that \<open>getRootTag\<close> returns the first bare
  major-version tag of the list (\<open>v2\<close>, not \<open>v2.3\<close>) and nothing when the list has none.
  The test of the source is \<open>/^v\d+/\<close>, which a version tag passes as well: on the list
  \<open>v1.0.0, v2\<close> the result is the version tag \<open>v1.0.0\<close> although the bare-major tag \<open>v2\<close>
  is present, and on the list \<open>v1.2.3\<close> alone the result is \<open>v1.2.3\<close> although no
  bare-major tag is present.
\<close>

theorem getRootTag_takes_version_tag:
  "getRootTag [''v1.0.0'', ''v2''] = Some ''v1.0.0'' \<and> \<not> bareMajor ''v1.0.0'' \<and> bareMajor ''v2'' \<and>
   getRootTag [''v1.2.3''] = Some ''v1.2.3'' \<and> \<not> bareMajor ''v1.2.3''"
  by (simp add: getRootTag_def bareMajor_def testRootPattern_def testVersionPattern_def isDigit_def)

text \<open>
  \<^bold>\<open>C2\<close> (exit status outside a repository). The specification says that the process ends
  with a non-zero status when the working directory is not a repository. In the
  source, \<open>main\<close> leaves through the \<open>return\<close> of line 135: whenever \<open>git.status()\<close>
  fails, it prints one line and returns, no prompt is shown, and the exit status is 0.
\<close>

theorem not_a_repository_exits_zero:
  assumes "fails s Status"
  shows "main u s =
           (Value (), s\<lparr>changes := [], trace := trace s @ [(Status, False)],
                        console := console s @ [Log ''Not a Git repository.'']\<rparr>) \<and>
         exitStatus (fst (main u s)) = 0"
  using assms by (simp add: main_def mainBody_def isGitRepo_eq tryCatch_def andThen_def ret_def exitStatus_def)

theorem not_a_repository_exits_zero_witness:
  "fails (exampleRepo\<lparr>repoPresent := False\<rparr>) Status \<and>
   fst (main (answering ''update'' ''v1.2.0'' True) (exampleRepo\<lparr>repoPresent := False\<rparr>)) = Value () \<and>
   exitStatus (fst (main (answering ''update'' ''v1.2.0'' True) (exampleRepo\<lparr>repoPresent := False\<rparr>))) = 0"
proof -
  have f: "fails (exampleRepo\<lparr>repoPresent := False\<rparr>) Status" by (simp add: fails_def)
  from not_a_repository_exits_zero [OF f, of "answering ''update'' ''v1.2.0'' True"] f
  show ?thesis by (simp add: exitStatus_def)
qed

text \<open>
  \<^bold>\<open>C3\<close> (cascade). In the update workflow, in a repository where no command fails:
  when the tag list has a root tag \<open>R\<close>, the user picks one of the offered tags \<open>S\<close>,
  both resolve to the same commit \<open>C\<close>, \<open>HEAD\<close> is \<open>D\<close>, and the user accepts the update
  and the cascade, the run completes, \<open>R\<close> resolves to \<open>D\<close> locally and on the remote,
  and the Change Records are exactly two, the one of \<open>S\<close> and the one of \<open>R\<close>, both with
  \<open>newCommitHash = D\<close>.
\<close>

theorem cascade_retargets_root:
  assumes repo: "repoPresent s" and nofault: "\<forall>c. \<not> faults s c"
    and action: "selects u ''What would you like to do?'' actionChoices = Answer ''update''"
    and root: "getRootTag (map fst (fetchedTags s)) = Some R"
    and offered: "S \<in> set (filterNonRootTags (map fst (fetchedTags s)))"
    and pick: "selects u ''Select a tag to update:''
                 (map (\<lambda>t. (t, t)) (filterNonRootTags (map fst (fetchedTags s)))) = Answer S"
    and nonempty: "S \<noteq> []"
    and head: "headCommit s = Some D"
    and yes: "confirms u (updateMessage S (shortenCommitHash D)) True = Answer True"
    and Rc: "resolveRef (s\<lparr>localTags := fetchedTags s\<rparr>) R = Some C"
    and Sc: "resolveRef (s\<lparr>localTags := fetchedTags s\<rparr>) S = Some C"
    and cascade: "confirms u (cascadeMessage S (shortenCommitHash D)) True = Answer True"
  shows "\<exists>s'. main u s = (Value (), s') \<and>
           resolveRef s' R = Some D \<and> map_of (remoteTags s') R = Some D \<and>
           changes s' =
             [\<lparr>tag = S, oldCommitHash = C, newCommitHash = D\<rparr>,
              \<lparr>tag = R, oldCommitHash = C, newCommitHash = D\<rparr>]"
proof -
  note r = getRootTag_SomeD [OF root]
  have f: "\<not> fails s c" for c using repo nofault by (simp add: fails_def)
  have SR: "S \<noteq> R" "R \<noteq> S" using offered r(6) by auto
  have Sl: "map_of (fetchedTags s) S \<noteq> None"
    using offered_is_tag [OF offered] by (rule map_of_tag)
  have Rl: "map_of (fetchedTags s) R = Some C"
    using Rc r(4) by (simp add: resolveRef_def)
  have ne: "filterNonRootTags (map fst (fetchedTags s)) \<noteq> []"
    using offered by auto
  show ?thesis
  proof (cases "S = ''HEAD''")
    case True
    have RH: "R \<noteq> ''HEAD''" by (rule r(4))
    have DC: "D = C" using Sc head True by (simp add: resolveRef_def)
    show ?thesis
      using f Sl Rl ne r(3,5) RH root action pick head yes cascade
      unfolding True DC
      by (simp add: run_simps resolveRef_def AList.update_conv' map_of_recreated)
  next
    case False
    then show ?thesis
      using f SR Sl Rl ne r(3,4,5) root action pick nonempty head yes Rc Sc cascade
      by (simp add: run_simps resolveRef_def AList.update_conv' map_of_recreated)
  qed
qed

theorem cascade_retargets_root_witness:
  "\<exists>s'. main (answering ''update'' ''v1.2.0'' True) exampleRepo = (Value (), s') \<and>
         resolveRef s' ''v1'' = Some ''3333333ccc'' \<and>
         map_of (remoteTags s') ''v1'' = Some ''3333333ccc'' \<and>
         changes s' =
           [\<lparr>tag = ''v1.2.0'', oldCommitHash = ''1111111aaa'', newCommitHash = ''3333333ccc''\<rparr>,
            \<lparr>tag = ''v1'', oldCommitHash = ''1111111aaa'', newCommitHash = ''3333333ccc''\<rparr>]"
proof -
  let ?u = "answering ''update'' ''v1.2.0'' True"
  show ?thesis
  proof (rule cascade_retargets_root [of exampleRepo ?u "''v1''" "''v1.2.0''" "''3333333ccc''" "''1111111aaa''"])
    show "repoPresent exampleRepo" by simp
    show "\<forall>c. \<not> faults exampleRepo c" by simp
    show "selects ?u ''What would you like to do?'' actionChoices = Answer ''update''"
      by (simp add: answering_def)
    show "getRootTag (map fst (fetchedTags exampleRepo)) = Some ''v1''"
      by (rule exampleRepo_tags)
    show "''v1.2.0'' \<in> set (filterNonRootTags (map fst (fetchedTags exampleRepo)))"
      using exampleRepo_tags(2) by simp
    show "selects ?u ''Select a tag to update:''
            (map (\<lambda>t. (t, t)) (filterNonRootTags (map fst (fetchedTags exampleRepo)))) =
          Answer ''v1.2.0''"
      by (simp add: answering_def)
    show "''v1.2.0'' \<noteq> []" by simp
    show "headCommit exampleRepo = Some ''3333333ccc''" by simp
    show "confirms ?u (updateMessage ''v1.2.0'' (shortenCommitHash ''3333333ccc'')) True = Answer True"
      by (simp add: answering_def)
    show "resolveRef (exampleRepo\<lparr>localTags := fetchedTags exampleRepo\<rparr>) ''v1'' = Some ''1111111aaa''"
      by (simp add: resolveRef_def)
    show "resolveRef (exampleRepo\<lparr>localTags := fetchedTags exampleRepo\<rparr>) ''v1.2.0'' = Some ''1111111aaa''"
      by (simp add: resolveRef_def)
    show "confirms ?u (cascadeMessage ''v1.2.0'' (shortenCommitHash ''3333333ccc'')) True = Answer True"
      by (simp add: answering_def)
  qed
qed

text \<open>
  \<^bold>\<open>C4\<close> (a Change Record only for a completed retarget). For every run of \<open>main\<close>
  that starts with an empty trace, whatever the user answers and whichever commands
  fail: the changes of tag refs in the trace begin with the three successful steps
  (delete, create at \<open>newCommitHash\<close>, force-push) of each Change Record, in the order
  of the records; what remains, if anything, belongs to one attempt whose last step
  failed and that has no successful push and no record, and then the process ended
  with \<open>process.exit(1)\<close>. In particular a failed delete, create or push ends the
  process with status 1.
\<close>

theorem change_record_only_after_success:
  assumes "trace s = []" and "main u s = (r, s')"
  shows "(\<exists>rest. mutations (trace s') = completed (changes s') @ rest \<and>
                 (rest = [] \<or> (r = Exit 1 \<and> failedAttempt rest))) \<and>
         (\<forall>c. (c, False) \<in> set (trace s') \<and> isMutation c \<longrightarrow> r = Exit 1)"
proof -
  from accounted_main [OF assms]
  have first: "\<exists>rest. mutations (trace s') = completed (changes s') @ rest \<and>
                 (rest = [] \<or> (r = Exit 1 \<and> failedAttempt rest))"
    by (cases r) (auto simp: accounted_def accountedAtExit_def)
  then obtain rest where rest: "mutations (trace s') = completed (changes s') @ rest"
    "rest = [] \<or> (r = Exit 1 \<and> failedAttempt rest)" by blast
  have "r = Exit 1" if c: "(c, False) \<in> set (trace s')" "isMutation c" for c
  proof (rule ccontr)
    assume "r \<noteq> Exit 1"
    with rest have "mutations (trace s') = completed (changes s')" by auto
    moreover from c have "(c, False) \<in> set (mutations (trace s'))" by (simp add: mutations_def)
    ultimately show False using completed_all_ok by fastforce
  qed
  with first show ?thesis by blast
qed

theorem change_record_only_after_success_witness:
  "trace (exampleRepo\<lparr>faults := (\<lambda>c. c = PushForce ''v1.2.0'')\<rparr>) = [] \<and>
   (PushForce ''v1.2.0'', False) \<in>
     set (trace (snd (main (answering ''update'' ''v1.2.0'' True)
                        (exampleRepo\<lparr>faults := (\<lambda>c. c = PushForce ''v1.2.0'')\<rparr>)))) \<and>
   fst (main (answering ''update'' ''v1.2.0'' True)
         (exampleRepo\<lparr>faults := (\<lambda>c. c = PushForce ''v1.2.0'')\<rparr>)) = Exit 1 \<and>
   changes (snd (main (answering ''update'' ''v1.2.0'' True)
         (exampleRepo\<lparr>faults := (\<lambda>c. c = PushForce ''v1.2.0'')\<rparr>))) = []"
proof -
  let ?s = "exampleRepo\<lparr>faults := (\<lambda>c. c = PushForce ''v1.2.0'')\<rparr>"
  let ?u = "answering ''update'' ''v1.2.0'' True"
  have t: "trace ?s = []" by simp
  have run: "main ?u ?s = (fst (main ?u ?s), snd (main ?u ?s))" by simp
  have tr: "(PushForce ''v1.2.0'', False) \<in> set (trace (snd (main ?u ?s)))"
    by (simp add: run_simps example_simps)
  have ch: "changes (snd (main ?u ?s)) = []"
    by (simp add: run_simps example_simps)
  from change_record_only_after_success [OF t run] tr
  have "fst (main ?u ?s) = Exit 1" by auto
  with t tr ch show ?thesis by simp
qed

text \<open>
  \<^bold>\<open>C5\<close> (the retarget operation). \<open>updateTag\<close> and \<open>updateRootTag\<close> succeed exactly when
  their four commands succeed. They then return the record of the tag, the commit the
  name resolved to before the first change, and the destination commit; the commands
  run are \<open>rev-parse\<close>, \<open>tag -d\<close>, \<open>tag\<close> at the destination and the forced \<open>push\<close>, in
  that order, and the tag is at the destination locally and on the remote. In every
  other case they end the process with status 1. In all cases the commands run are an
  initial part of that sequence, so that the tag is resolved before anything is changed.
\<close>

theorem retarget_returns_record:
  "(retargetOk name d s \<longrightarrow>
      (\<exists>s'. updateTag name d s =
               (Value \<lparr>tag = name, oldCommitHash = the (resolveRef s name), newCommitHash = d\<rparr>, s') \<and>
             trace s' = trace s @ retargetTrace name d \<and>
             map_of (localTags s') name = Some d \<and> map_of (remoteTags s') name = Some d) \<and>
      (\<exists>s'. updateRootTag name d s =
               (Value \<lparr>tag = name, oldCommitHash = the (resolveRef s name), newCommitHash = d\<rparr>, s') \<and>
             trace s' = trace s @ retargetTrace name d \<and>
             map_of (localTags s') name = Some d \<and> map_of (remoteTags s') name = Some d)) \<and>
   (\<not> retargetOk name d s \<longrightarrow>
      fst (updateTag name d s) = Exit 1 \<and> fst (updateRootTag name d s) = Exit 1) \<and>
   (\<exists>tr. trace (snd (updateTag name d s)) = trace s @ tr \<and> tr \<noteq> [] \<and>
         prefix (map fst tr) (map fst (retargetTrace name d))) \<and>
   (\<exists>tr. trace (snd (updateRootTag name d s)) = trace s @ tr \<and> tr \<noteq> [] \<and>
         prefix (map fst tr) (map fst (retargetTrace name d)))"
  by (auto simp: updateTag_eq updateRootTag_eq retargetOk_def retargetTrace_def
        AList.update_conv' map_of_recreated)

theorem retarget_returns_record_witness:
  "retargetOk ''v1.2.0'' ''3333333ccc'' exampleRepo \<and>
   (\<exists>s'. updateTag ''v1.2.0'' ''3333333ccc'' exampleRepo =
      (Value \<lparr>tag = ''v1.2.0'', oldCommitHash = ''1111111aaa'', newCommitHash = ''3333333ccc''\<rparr>, s') \<and>
      trace s' =
        [(RevParse ''v1.2.0'', True), (TagDelete ''v1.2.0'', True),
         (TagCreate ''v1.2.0'' ''3333333ccc'', True), (PushForce ''v1.2.0'', True)])"
proof -
  have ok: "retargetOk ''v1.2.0'' ''3333333ccc'' exampleRepo"
    by (simp add: retargetOk_def resolveRef_def)
  have old: "the (resolveRef exampleRepo ''v1.2.0'') = ''1111111aaa''"
    by (simp add: resolveRef_def)
  from retarget_returns_record [of "''v1.2.0''" "''3333333ccc''" exampleRepo] ok old
  show ?thesis by (auto simp: retargetTrace_def)
qed

text \<open>
  \<^bold>\<open>C6\<close> (no cascade). In the update workflow, in a repository where no command fails:
  when the root tag \<open>R\<close> resolves to \<open>C2\<close>, the tag \<open>S\<close> picked among the offered ones
  resolves to \<open>C \<noteq> C2\<close>, and the user accepts the update, the run completes; the only
  prompts shown are the two selections and the confirmation of the update, the only
  commands that change a ref are those of the retarget of \<open>S\<close> (\<open>R\<close> is only read),
  \<open>R\<close> still resolves to \<open>C2\<close>, its remote ref is what it was, and the Change Records
  are exactly the one of \<open>S\<close>.
\<close>

theorem no_cascade_when_root_differs:
  assumes repo: "repoPresent s" and nofault: "\<forall>c. \<not> faults s c"
    and action: "selects u ''What would you like to do?'' actionChoices = Answer ''update''"
    and root: "getRootTag (map fst (fetchedTags s)) = Some R"
    and offered: "S \<in> set (filterNonRootTags (map fst (fetchedTags s)))"
    and pick: "selects u ''Select a tag to update:''
                 (map (\<lambda>t. (t, t)) (filterNonRootTags (map fst (fetchedTags s)))) = Answer S"
    and nonempty: "S \<noteq> []"
    and head: "headCommit s = Some D"
    and yes: "confirms u (updateMessage S (shortenCommitHash D)) True = Answer True"
    and Rc: "resolveRef (s\<lparr>localTags := fetchedTags s\<rparr>) R = Some C2"
    and Sc: "resolveRef (s\<lparr>localTags := fetchedTags s\<rparr>) S = Some C"
    and differ: "C2 \<noteq> C"
  shows "\<exists>s'. main u s = (Value (), s') \<and>
           asked s' = asked s @
             [Select ''What would you like to do?'' actionChoices,
              Select ''Select a tag to update:''
                (map (\<lambda>t. (t, t)) (filterNonRootTags (map fst (fetchedTags s)))),
              Confirm (updateMessage S (shortenCommitHash D)) True] \<and>
           trace s' = trace s @
             [(Status, True), (FetchTags, True), (ListTags, True), (RevParse ''HEAD'', True),
              (RevParse R, True), (RevParse S, True)] @ retargetTrace S D \<and>
           resolveRef s' R = Some C2 \<and>
           map_of (remoteTags s') R = map_of (remoteTags s) R \<and>
           changes s' = [\<lparr>tag = S, oldCommitHash = C, newCommitHash = D\<rparr>]"
proof -
  note r = getRootTag_SomeD [OF root]
  have f: "\<not> fails s c" for c using repo nofault by (simp add: fails_def)
  have SR: "S \<noteq> R" "R \<noteq> S" using offered r(6) by auto
  have Sl: "map_of (fetchedTags s) S \<noteq> None"
    using offered_is_tag [OF offered] by (rule map_of_tag)
  have Rl: "map_of (fetchedTags s) R = Some C2"
    using Rc r(4) by (simp add: resolveRef_def)
  have ne: "filterNonRootTags (map fst (fetchedTags s)) \<noteq> []"
    using offered by auto
  show ?thesis
  proof (cases "S = ''HEAD''")
    case True
    have RH: "R \<noteq> ''HEAD''" by (rule r(4))
    have DC: "D = C" using Sc head True by (simp add: resolveRef_def)
    show ?thesis
      using f Sl Rl ne r(3,5) RH root action pick head yes differ
      unfolding True DC
      by (simp add: run_simps resolveRef_def AList.update_conv' map_of_recreated retargetTrace_def)
  next
    case False
    then show ?thesis
      using f SR Sl Rl ne r(3,4,5) root action pick nonempty head yes Rc Sc differ
      by (simp add: run_simps resolveRef_def AList.update_conv' map_of_recreated retargetTrace_def)
  qed
qed

theorem no_cascade_when_root_differs_witness:
  "\<exists>s'. main (answering ''update'' ''v2.0.0'' True) exampleRepo = (Value (), s') \<and>
         asked s' =
           [Select ''What would you like to do?'' actionChoices,
            Select ''Select a tag to update:'' [(''v1.2.0'', ''v1.2.0''), (''v2.0.0'', ''v2.0.0'')],
            Confirm (updateMessage ''v2.0.0'' ''3333333'') True] \<and>
         resolveRef s' ''v1'' = Some ''1111111aaa'' \<and>
         map_of (remoteTags s') ''v1'' = Some ''1111111aaa'' \<and>
         changes s' =
           [\<lparr>tag = ''v2.0.0'', oldCommitHash = ''2222222bbb'', newCommitHash = ''3333333ccc''\<rparr>]"
proof -
  let ?u = "answering ''update'' ''v2.0.0'' True"
  have "\<exists>s'. main ?u exampleRepo = (Value (), s') \<and>
           asked s' = asked exampleRepo @
             [Select ''What would you like to do?'' actionChoices,
              Select ''Select a tag to update:''
                (map (\<lambda>t. (t, t)) (filterNonRootTags (map fst (fetchedTags exampleRepo)))),
              Confirm (updateMessage ''v2.0.0'' (shortenCommitHash ''3333333ccc'')) True] \<and>
           trace s' = trace exampleRepo @
             [(Status, True), (FetchTags, True), (ListTags, True), (RevParse ''HEAD'', True),
              (RevParse ''v1'', True), (RevParse ''v2.0.0'', True)] @ retargetTrace ''v2.0.0'' ''3333333ccc'' \<and>
           resolveRef s' ''v1'' = Some ''1111111aaa'' \<and>
           map_of (remoteTags s') ''v1'' = map_of (remoteTags exampleRepo) ''v1'' \<and>
           changes s' = [\<lparr>tag = ''v2.0.0'', oldCommitHash = ''2222222bbb'', newCommitHash = ''3333333ccc''\<rparr>]"
  proof (rule no_cascade_when_root_differs)
    show "repoPresent exampleRepo" by simp
    show "\<forall>c. \<not> faults exampleRepo c" by simp
    show "selects ?u ''What would you like to do?'' actionChoices = Answer ''update''"
      by (simp add: answering_def)
    show "getRootTag (map fst (fetchedTags exampleRepo)) = Some ''v1''"
      by (rule exampleRepo_tags)
    show "''v2.0.0'' \<in> set (filterNonRootTags (map fst (fetchedTags exampleRepo)))"
      using exampleRepo_tags(2) by simp
    show "selects ?u ''Select a tag to update:''
            (map (\<lambda>t. (t, t)) (filterNonRootTags (map fst (fetchedTags exampleRepo)))) =
          Answer ''v2.0.0''"
      by (simp add: answering_def)
    show "''v2.0.0'' \<noteq> []" by simp
    show "headCommit exampleRepo = Some ''3333333ccc''" by simp
    show "confirms ?u (updateMessage ''v2.0.0'' (shortenCommitHash ''3333333ccc'')) True = Answer True"
      by (simp add: answering_def)
    show "resolveRef (exampleRepo\<lparr>localTags := fetchedTags exampleRepo\<rparr>) ''v1'' = Some ''1111111aaa''"
      by (simp add: resolveRef_def)
    show "resolveRef (exampleRepo\<lparr>localTags := fetchedTags exampleRepo\<rparr>) ''v2.0.0'' = Some ''2222222bbb''"
      by (simp add: resolveRef_def)
    show "''1111111aaa'' \<noteq> ''2222222bbb''" by simp
  qed
  then show ?thesis
    using exampleRepo_tags(2) by (auto simp: shortenCommitHash_def)
qed

text \<open>
  \<^bold>\<open>C7\<close> (\<open>filterNonRootTags\<close>). When \<open>getRootTag\<close> identifies \<open>r\<close>, the result is the list
  without \<open>r\<close>: \<open>r\<close> does not occur in it, every other name occurs as often as in the
  input, the order is that of the input, and for a list of distinct names exactly one
  element is removed. When no element passes \<open>^v\d+\<close>, the result is the input.
\<close>

theorem filterNonRootTags_excludes_root:
  "(getRootTag tags = Some r \<longrightarrow>
      filterNonRootTags tags = filter (\<lambda>t. t \<noteq> r) tags \<and>
      r \<notin> set (filterNonRootTags tags) \<and>
      (\<forall>t. t \<noteq> r \<longrightarrow> count_list (filterNonRootTags tags) t = count_list tags t) \<and>
      subseq (filterNonRootTags tags) tags \<and>
      (distinct tags \<longrightarrow> filterNonRootTags tags = remove1 r tags \<and>
                           Suc (length (filterNonRootTags tags)) = length tags)) \<and>
   ((\<forall>t \<in> set tags. \<not> testRootPattern t) \<longrightarrow> filterNonRootTags tags = tags)"
proof (intro conjI impI)
  assume r: "getRootTag tags = Some r"
  then show eq: "filterNonRootTags tags = filter (\<lambda>t. t \<noteq> r) tags"
    by (rule filterNonRootTags_Some)
  show "r \<notin> set (filterNonRootTags tags)" by (simp add: eq)
  show "\<forall>t. t \<noteq> r \<longrightarrow> count_list (filterNonRootTags tags) t = count_list tags t"
    by (simp add: eq count_list_filter_neq)
  show "subseq (filterNonRootTags tags) tags" by (simp add: eq)
  have mem: "r \<in> set tags" using r by (auto simp: getRootTag_Some_iff)
  {
    assume d: "distinct tags"
    then show "filterNonRootTags tags = remove1 r tags" by (simp add: eq filter_neq_remove1)
    then show "Suc (length (filterNonRootTags tags)) = length tags"
      using mem by (simp add: length_remove1) (cases tags; simp)
  }
next
  assume "\<forall>t \<in> set tags. \<not> testRootPattern t"
  then have "getRootTag tags = None" by (simp add: getRootTag_None_iff)
  then show "filterNonRootTags tags = tags" by (rule filterNonRootTags_None)
qed

theorem filterNonRootTags_excludes_root_witness:
  "getRootTag [''v1.2.3'', ''latest'', ''v1'', ''v2''] = Some ''v1.2.3'' \<and>
   filterNonRootTags [''v1.2.3'', ''latest'', ''v1'', ''v2''] = [''latest'', ''v1'', ''v2''] \<and>
   filterNonRootTags [''latest'', ''release-1''] = [''latest'', ''release-1'']"
proof -
  have r: "getRootTag [''v1.2.3'', ''latest'', ''v1'', ''v2''] = Some ''v1.2.3''"
    by (simp add: getRootTag_def testRootPattern_def isDigit_def)
  have n: "\<forall>t \<in> set [''latest'', ''release-1'']. \<not> testRootPattern t"
    by (simp add: testRootPattern_def)
  from filterNonRootTags_excludes_root [of "[''v1.2.3'', ''latest'', ''v1'', ''v2'']" "''v1.2.3''"] r
  have "filterNonRootTags [''v1.2.3'', ''latest'', ''v1'', ''v2''] = [''latest'', ''v1'', ''v2'']"
    by simp
  moreover from filterNonRootTags_excludes_root [of "[''latest'', ''release-1'']" "''x''"] n
  have "filterNonRootTags [''latest'', ''release-1''] = [''latest'', ''release-1'']"
    by blast
  ultimately show ?thesis using r by simp
qed

text \<open>
  \<^bold>\<open>C8\<close> (retarget to the same commit). When the name already resolves to the
  destination \<open>d\<close>, nothing is skipped: the delete is attempted as soon as the name is
  resolved, and when the four commands succeed the trace is the full sequence
  \<open>rev-parse\<close>, \<open>tag -d\<close>, \<open>tag\<close>, \<open>push\<close>, and the record returned has
  \<open>oldCommitHash = newCommitHash = d\<close>.
\<close>

theorem retarget_to_same_commit:
  assumes "resolveRef s name = Some d" and "\<not> fails s (RevParse name)"
  shows "(\<exists>ok. (TagDelete name, ok) \<in> set (trace (snd (updateTag name d s)))) \<and>
         (\<exists>ok. (TagDelete name, ok) \<in> set (trace (snd (updateRootTag name d s)))) \<and>
         (retargetOk name d s \<longrightarrow>
            (\<exists>s'. updateTag name d s =
                     (Value \<lparr>tag = name, oldCommitHash = d, newCommitHash = d\<rparr>, s') \<and>
                   trace s' = trace s @ retargetTrace name d) \<and>
            (\<exists>s'. updateRootTag name d s =
                     (Value \<lparr>tag = name, oldCommitHash = d, newCommitHash = d\<rparr>, s') \<and>
                   trace s' = trace s @ retargetTrace name d))"
  using assms
  by (auto simp: updateTag_eq updateRootTag_eq retargetOk_def retargetTrace_def)

theorem retarget_to_same_commit_witness:
  "resolveRef exampleRepo ''v2.0.0'' = Some ''2222222bbb'' \<and>
   (\<exists>s'. updateTag ''v2.0.0'' ''2222222bbb'' exampleRepo =
      (Value \<lparr>tag = ''v2.0.0'', oldCommitHash = ''2222222bbb'', newCommitHash = ''2222222bbb''\<rparr>, s') \<and>
      trace s' =
        [(RevParse ''v2.0.0'', True), (TagDelete ''v2.0.0'', True),
         (TagCreate ''v2.0.0'' ''2222222bbb'', True), (PushForce ''v2.0.0'', True)])"
proof -
  have r: "resolveRef exampleRepo ''v2.0.0'' = Some ''2222222bbb''"
    by (simp add: resolveRef_def)
  have f: "\<not> fails exampleRepo (RevParse ''v2.0.0'')" by simp
  have ok: "retargetOk ''v2.0.0'' ''2222222bbb'' exampleRepo"
    by (simp add: retargetOk_def resolveRef_def)
  from retarget_to_same_commit [OF r f] ok r
  show ?thesis by (simp add: retargetTrace_def)
qed

text \<open>
  \<^bold>\<open>C9\<close> (cancellation). Whenever the body of \<open>main\<close> throws \<open>e\<close>, the process ends with
  status 1; the line printed is \<open>Canceled by User\<close> when \<open>e\<close> is \<open>ExitPromptError\<close>, and
  otherwise \<open>An unexpected error occurred.\<close> followed by the error. In particular this
  is what happens when the first prompt rejects with \<open>e\<close>.
\<close>

theorem cancellation_distinguished:
  "(mainBody u (s\<lparr>changes := []\<rparr>) = (Throw e, s1) \<longrightarrow>
      main u s =
        (Exit 1, s1\<lparr>console := console s1 @
                       (if e = ExitPromptError then [Log ''Canceled by User'']
                        else [Error ''An unexpected error occurred.'', ErrorObject e])\<rparr>)) \<and>
   (\<not> fails s Status \<and> selects u ''What would you like to do?'' actionChoices = Rejects e \<longrightarrow>
      fst (main u s) = Exit 1 \<and>
      console (snd (main u s)) =
        console s @ (if e = ExitPromptError then [Log ''Canceled by User'']
                     else [Error ''An unexpected error occurred.'', ErrorObject e]))"
  by (simp add: main_def mainBody_def mainCatch_def isGitRepo_eq select_def tryCatch_def andThen_def ret_def
        exitProcess_def consoleLog_def consoleError_def consoleErrorObject_def Let_def)

theorem cancellation_distinguished_witness:
  "fst (main (rejecting ExitPromptError) exampleRepo) = Exit 1 \<and>
   console (snd (main (rejecting ExitPromptError) exampleRepo)) = [Log ''Canceled by User''] \<and>
   fst (main (rejecting (OtherError ''boom'')) exampleRepo) = Exit 1 \<and>
   console (snd (main (rejecting (OtherError ''boom'')) exampleRepo)) =
     [Error ''An unexpected error occurred.'', ErrorObject (OtherError ''boom'')]"
proof -
  have a: "selects (rejecting e) ''What would you like to do?'' actionChoices = Rejects e" for e
    by (simp add: rejecting_def)
  have f: "\<not> fails exampleRepo Status" by simp
  from cancellation_distinguished [of "rejecting ExitPromptError" exampleRepo ExitPromptError]
    cancellation_distinguished [of "rejecting (OtherError ''boom'')" exampleRepo "OtherError ''boom''"]
    a f
  show ?thesis by simp
qed

text \<open>
  \<^bold>\<open>C10\<close> (the exit \<open>No root tag found\<close> is dead). Every name that passes
  \<open>^v\d+\.\d+\<close> passes \<open>^v\d+\<close>; so a tag list with a version tag has a root tag for
  \<open>getRootTag\<close>, and it is truthy. No run of \<open>main\<close> prints \<open>No root tag found. Exiting.\<close>:
  the bump workflow exits earlier when there is no version tag.
\<close>

theorem no_root_exit_unreachable:
  "(testVersionPattern t \<longrightarrow> testRootPattern t) \<and>
   (filterVersionTags tags \<noteq> [] \<longrightarrow> getRootTag tags \<noteq> None \<and> truthy (getRootTag tags)) \<and>
   (neverSaid ''No root tag found. Exiting.'' s \<longrightarrow>
      neverSaid ''No root tag found. Exiting.'' (snd (main u s)))"
  using testVersion_imp_testRoot [of t] versionTags_have_root [of tags] quiet_main [of s u]
  by blast

theorem no_root_exit_unreachable_witness:
  "testVersionPattern ''v1.2.0'' \<and> testRootPattern ''v1.2.0'' \<and>
   filterVersionTags [''v1.2.0'', ''latest''] = [''v1.2.0''] \<and>
   getRootTag [''v1.2.0'', ''latest''] = Some ''v1.2.0'' \<and>
   neverSaid ''No root tag found. Exiting.'' exampleRepo \<and>
   neverSaid ''No root tag found. Exiting.''
     (snd (main (answering ''bump'' ''v1.2.0'' True) exampleRepo))"
proof -
  have v: "testVersionPattern ''v1.2.0''"
    by (simp add: testVersionPattern_def isDigit_def)
  have f: "filterVersionTags [''v1.2.0'', ''latest''] = [''v1.2.0'']"
    by (simp add: filterVersionTags_def testVersionPattern_def isDigit_def)
  have n: "neverSaid ''No root tag found. Exiting.'' exampleRepo"
    by (simp add: neverSaid_def)
  have g: "getRootTag [''v1.2.0'', ''latest''] = Some ''v1.2.0''"
    by (simp add: getRootTag_def testRootPattern_def isDigit_def)
  from no_root_exit_unreachable [of "''v1.2.0''" "[''v1.2.0'', ''latest'']" exampleRepo
      "answering ''bump'' ''v1.2.0'' True"] v f n g
  show ?thesis by simp
qed

end
